theory Spec2Isabelle
  imports Main "HOL-Library.Char_ord"
begin

section \<open>SimpleSymbolSupplier: a shallow embedding of simple\_symbol\_supplier.cc\<close>

text \<open>
  The supplier resolves the symbol file of a code module below a list of search roots.
  On a miss it downloads the module's pdb file, stores it beside the expected symbol file
  and runs the converter. The C++ file works on \<open>std::string\<close> values, on the file
  system, on the heap and through two external programs (libcurl and the shell); the model
  passes the file system and the heap around as a value of type \<open>world\<close>, and takes the
  two external programs as functions of a record \<open>env\<close>.
\<close>

subsection \<open>Strings\<close>

text \<open>
  A \<open>std::string\<close> is a \<open>string\<close> (a list of bytes). \<open>c_str\<close> is what a C function
  reads from the pointer \<open>s.c_str()\<close>: the bytes before the first NUL.
\<close>

definition c_str :: "string \<Rightarrow> string" where
  "c_str s = takeWhile (\<lambda>c. c \<noteq> CHR 0x00) s"

text \<open>
  \<open>tolower\<close> of \<open><ctype.h>\<close> in the "C" locale: the upper-case letters \<open>A\<close> to \<open>Z\<close>
  move to lower case, every other byte stays.
\<close>

definition tolower :: "char \<Rightarrow> char" where
  "tolower c =
     (if CHR ''A'' \<le> c \<and> c \<le> CHR ''Z'' then char_of (of_char c + (32::nat)) else c)"

text \<open>
  Modelled from the spec: \<open>PathnameStripper::File\<close> (processor/pathname\_stripper.h is
  not among the sources). The spec has it "strip any directory components" of a file
  name; the model keeps what follows the last separator, where a separator is \<open>/\<close> or
  \<open>\\<close>, the two separators \<open>mkpath\<close> of the source file knows.
\<close>

definition File :: "string \<Rightarrow> string" where
  "File path = rev (takeWhile (\<lambda>c. c \<noteq> CHR ''/'' \<and> c \<noteq> CHR 0x5C) (rev path))"

subsection \<open>Modules and results\<close>

record CodeModule =
  code_file :: string
  debug_file :: string
  debug_identifier :: string
  version :: string

datatype SymbolResult = NOT_FOUND | FOUND | INTERRUPT

subsection \<open>Path derivation (GetSymbolFileAtPathFromRoot, lines 254 to 311)\<close>

text \<open>
  Lines 260 to 265: the debug file name is the base name of \<open>debug_file\<close>; when that is
  empty and the base name of \<open>code_file\<close> has more than three characters, it is that name
  with its last three characters replaced by \<open>pdb\<close>.
\<close>

definition debug_file_name_of :: "CodeModule \<Rightarrow> string" where
  "debug_file_name_of m =
     (let debug_file_name = File (debug_file m);
          code_file = File (code_file m)
      in if debug_file_name = [] \<and> 3 < length code_file
         then take (length code_file - 3) code_file @ ''pdb''
         else debug_file_name)"

text \<open>Lines 274 to 290: the identifier directory, with its leading separator.\<close>

definition identifier_segment :: "CodeModule \<Rightarrow> string" where
  "identifier_segment m =
     (let identifier = debug_identifier m; version = version m
      in if \<not> (identifier = [] \<and> version = [])
         then ''/'' @ (if identifier \<noteq> [] then identifier else version)
         else [])"

text \<open>
  Lines 296 to 305: the extension is read only from a name of more than four characters,
  lower-cased, and compared with \<open>.pdb\<close>.
\<close>

definition symbol_file_stem :: "string \<Rightarrow> string" where
  "symbol_file_stem debug_file_name =
     (let debug_file_extension =
            (if 4 < length debug_file_name
             then drop (length debug_file_name - 4) debug_file_name else []);
          debug_file_extension = map tolower debug_file_extension
      in if debug_file_extension = ''.pdb''
         then take (length debug_file_name - 4) debug_file_name
         else debug_file_name)"

text \<open>
  Lines 254 to 307 as one function: \<open>None\<close> is the early return of line 269, otherwise
  the pair \<open>(path, path_pdb)\<close> of the symbol file and of the pdb file.
\<close>

definition symbol_paths :: "CodeModule \<Rightarrow> string \<Rightarrow> (string \<times> string) option" where
  "symbol_paths m root_path =
     (let path = root_path @ ''/'';
          debug_file_name = debug_file_name_of m
      in if debug_file_name = [] then None
         else
           let path = path @ debug_file_name;
               path = path @ identifier_segment m;
               path = path @ ''/'';
               path = path @ symbol_file_stem debug_file_name;
               path_pdb = path @ ''.pdb''
           in Some (path @ ''.sym'', path_pdb))"

text \<open>
  Line 311: the URL is the fixed base followed by the C string that starts
  \<open>root_path.length()\<close> bytes into \<open>path_pdb\<close>.
\<close>

definition symbol_server :: string where
  "symbol_server = ''http://msdl.microsoft.com/download/symbols''"

definition url_suffix :: "string \<Rightarrow> string \<Rightarrow> string" where
  "url_suffix root_path path_pdb = c_str (drop (length root_path) path_pdb)"

definition symbol_url :: "string \<Rightarrow> string \<Rightarrow> string" where
  "symbol_url root_path path_pdb = symbol_server @ url_suffix root_path path_pdb"

subsection \<open>The world: file system, heap and external calls\<close>

text \<open>
  The file system maps a path, as the system call receives it, to a directory (with the
  flag "entries may be created in it") or to a regular file and its bytes. Paths are not
  normalised: the model knows no \<open>.\<close>, \<open>..\<close>, symbolic link or doubled separator. The
  heap maps the address of a live array to its bytes; \<open>mem_avail\<close> bytes can still be
  allocated. \<open>trace\<close> records, in order, every \<open>mkdir\<close>, every download and every
  shell command.
\<close>

datatype node = Directory bool | Regular string

datatype errno = EEXIST | ENOENT | EACCES | ENOTDIR

datatype call = Mkdir string "errno option" | Fetch string | Shell string

text \<open>
  The ways in which a call does not return: a read through a null pointer or beyond the
  end of a buffer, a write through a pointer that is not a buffer's, the exception
  \<open>std::bad_alloc\<close> (nothing in the file catches it), and a member call through a null
  module pointer.
\<close>

datatype fault = InvalidRead | InvalidWrite | BadAlloc | NullModule

record world =
  files :: "string \<rightharpoonup> node"
  heap :: "nat \<rightharpoonup> string"
  next_addr :: nat
  mem_avail :: nat
  trace :: "call list"

text \<open>
  What the program cannot decide: whether \<open>curl_easy_init\<close> gives a handle, what
  \<open>curl_easy_perform\<close> downloads from a URL (\<open>None\<close> when its result is not
  \<open>CURLE_OK\<close>), what the shell does to the file system for a command line and the status
  it returns, and the values an uninitialised \<open>int\<close> and an uninitialised \<open>char\<close> hold.
\<close>

record env =
  curl_easy_init_ok :: bool
  curl_easy_perform :: "string \<Rightarrow> string option"
  system :: "string \<Rightarrow> (string \<rightharpoonup> node) \<Rightarrow> int \<times> (string \<rightharpoonup> node)"
  uninit_int :: int
  uninit_char :: char

text \<open>The directory a path's last component lives in.\<close>

definition dirname :: "string \<Rightarrow> string" where
  "dirname p =
     (let d = rev (drop 1 (dropWhile (\<lambda>c. c \<noteq> CHR ''/'') (rev p)))
      in if CHR ''/'' \<notin> set p then ''.'' else if d = [] then ''/'' else d)"

text \<open>\<open>stat(path) == 0\<close>: the path names a file or a directory.\<close>

definition stat_ok :: "string \<Rightarrow> world \<Rightarrow> bool" where
  "stat_ok p w = (files w p \<noteq> None)"

text \<open>
  The directories above a path, outermost first: its prefixes that end before a \<open>/\<close>,
  the first character never counting as one. The kernel walks them in this order; the
  first that is missing answers \<open>ENOENT\<close>, the first that is a regular file answers
  \<open>ENOTDIR\<close>.
\<close>

fun prefixes_before_slash :: "string \<Rightarrow> string \<Rightarrow> string list" where
  "prefixes_before_slash buffer [] = []"
| "prefixes_before_slash buffer (c # cs) =
     (if c = CHR ''/''
      then buffer # prefixes_before_slash (buffer @ [c]) cs
      else prefixes_before_slash (buffer @ [c]) cs)"

definition ancestors :: "string \<Rightarrow> string list" where
  "ancestors p = prefixes_before_slash (take 1 p) (drop 1 p)"

fun walk :: "string list \<Rightarrow> world \<Rightarrow> errno option" where
  "walk [] w = None"
| "walk (d # ds) w =
     (case files w d of
        None \<Rightarrow> Some ENOENT
      | Some (Regular _) \<Rightarrow> Some ENOTDIR
      | Some (Directory _) \<Rightarrow> walk ds w)"

text \<open>
  \<open>mkdir\<close>: \<open>None\<close> is the return value 0, \<open>Some e\<close> is \<open>-1\<close> with \<open>errno = e\<close>.
\<close>

definition mkdir_errno :: "string \<Rightarrow> world \<Rightarrow> errno option" where
  "mkdir_errno p w =
     (if p = [] then Some ENOENT
      else case files w p of
        Some _ \<Rightarrow> Some EEXIST
      | None \<Rightarrow>
          (case walk (ancestors p) w of
             Some e \<Rightarrow> Some e
           | None \<Rightarrow>
               (case files w (dirname p) of
                  None \<Rightarrow> Some ENOENT
                | Some (Regular _) \<Rightarrow> Some ENOTDIR
                | Some (Directory writable) \<Rightarrow> if writable then None else Some EACCES)))"

definition mkdir :: "string \<Rightarrow> world \<Rightarrow> errno option \<times> world" where
  "mkdir p w =
     (let r = mkdir_errno p w
      in (r, w\<lparr>files := (if r = None then (files w)(p \<mapsto> Directory True) else files w),
               trace := trace w @ [Mkdir p r]\<rparr>))"

text \<open>
  \<open>fopen(path, "wb")\<close>: an existing regular file is truncated, a missing one is created
  when its directory accepts entries; the result says whether the stream is not null.
\<close>

definition fopen_wb :: "string \<Rightarrow> world \<Rightarrow> bool \<times> world" where
  "fopen_wb p w =
     (let opened =
            (if p = [] then False
             else case files w p of
               Some (Directory _) \<Rightarrow> False
             | Some (Regular _) \<Rightarrow> True
             | None \<Rightarrow>
                 (case files w (dirname p) of
                    Some (Directory writable) \<Rightarrow> writable
                  | _ \<Rightarrow> False))
      in (opened, if opened then w\<lparr>files := (files w)(p \<mapsto> Regular [])\<rparr> else w))"

text \<open>
  \<open>fwrite(data, 1, n, f)\<close> followed by \<open>fclose(f)\<close>, for the stream opened on \<open>p\<close>:
  \<open>n\<close> bytes are read from \<open>data\<close>. Reading through a null pointer, or beyond the
  bytes \<open>data\<close> points to, is a fault.
\<close>

definition fwrite :: "string option \<Rightarrow> int \<Rightarrow> string \<Rightarrow> world \<Rightarrow> fault option \<times> world" where
  "fwrite data n p w =
     (case data of
        None \<Rightarrow> if n = 0 then (None, w) else (Some InvalidRead, w)
      | Some bytes \<Rightarrow>
          if 0 \<le> n \<and> nat n \<le> length bytes
          then (None, w\<lparr>files := (files w)(p \<mapsto> Regular (take (nat n) bytes))\<rparr>)
          else (Some InvalidRead, w))"

text \<open>\<open>unlink\<close>: removes a regular file from a directory that accepts changes.\<close>

definition unlink :: "string \<Rightarrow> world \<Rightarrow> world" where
  "unlink p w =
     (case (files w p, files w (dirname p)) of
        (Some (Regular _), Some (Directory True)) \<Rightarrow> w\<lparr>files := (files w)(p := None)\<rparr>
      | _ \<Rightarrow> w)"

text \<open>\<open>system(cmd)\<close>: the shell of \<open>env\<close> runs on the file system.\<close>

definition system_call :: "env \<Rightarrow> string \<Rightarrow> world \<Rightarrow> int \<times> world" where
  "system_call e cmd w =
     (let (status, fs) = system e cmd (files w)
      in (status, w\<lparr>files := fs, trace := trace w @ [Shell cmd]\<rparr>))"

text \<open>
  \<open>std::ifstream in(p); std::getline(in, data, to_char_type(eof()))\<close>: the delimiter is
  the character \<open>char(-1)\<close>, so the bytes before the first byte \<open>0xFF\<close> are read; a path
  that is no regular file gives the empty string.
\<close>

definition getline_eof :: "string \<Rightarrow> world \<Rightarrow> string" where
  "getline_eof p w =
     (case files w p of
        Some (Regular bytes) \<Rightarrow> takeWhile (\<lambda>c. c \<noteq> CHR 0xFF) bytes
      | _ \<Rightarrow> [])"

text \<open>
  \<open>new char[n]\<close>, the plain form of line 214: the array gets a fresh address and holds
  indeterminate bytes, and when the memory is short the expression throws
  \<open>std::bad_alloc\<close>. The pointer it gives (\<open>None\<close> would be the null pointer) is never
  null. \<open>memcpy\<close> and the store of one byte change the array at an address;
  \<open>delete []\<close> gives the array back.
\<close>

definition new_char_array :: "env \<Rightarrow> nat \<Rightarrow> world \<Rightarrow> (fault + nat option) \<times> world" where
  "new_char_array e n w =
     (if n \<le> mem_avail w
      then (Inr (Some (next_addr w)),
            w\<lparr>heap := (heap w)(next_addr w \<mapsto> replicate n (uninit_char e)),
              next_addr := Suc (next_addr w),
              mem_avail := mem_avail w - n\<rparr>)
      else (Inl BadAlloc, w))"

definition memcpy :: "nat \<Rightarrow> string \<Rightarrow> world \<Rightarrow> world" where
  "memcpy a bytes w =
     (case heap w a of
        None \<Rightarrow> w
      | Some old \<Rightarrow> w\<lparr>heap := (heap w)(a \<mapsto> bytes @ drop (length bytes) old)\<rparr>)"

definition store_char :: "nat \<Rightarrow> nat \<Rightarrow> char \<Rightarrow> world \<Rightarrow> world" where
  "store_char a i c w =
     (case heap w a of
        None \<Rightarrow> w
      | Some old \<Rightarrow> w\<lparr>heap := (heap w)(a \<mapsto> old[i := c])\<rparr>)"

definition delete_array :: "nat \<Rightarrow> world \<Rightarrow> world" where
  "delete_array a w =
     (case heap w a of
        None \<Rightarrow> w
      | Some old \<Rightarrow> w\<lparr>heap := (heap w)(a := None), mem_avail := mem_avail w + length old\<rparr>)"

subsection \<open>load\_url (lines 79 to 107)\<close>

text \<open>
  The result is the pointer (\<open>None\<close> is the null pointer) and the value of \<open>*size\<close>
  after the call: \<open>*size\<close> is written only on the path through line 104. A body of no
  bytes never reaches \<open>buffer_write_cb\<close>, so its buffer is the null pointer of line 81.
  \<open>m_buf_size\<close> is an \<open>int\<close>: with a body of \<open>2^31\<close> bytes or more it turns negative in
  \<open>buffer_write_cb\<close>, \<open>realloc\<close> is asked for a size it cannot give, and \<open>memcpy\<close>
  writes through the null pointer it returns.
\<close>

definition load_url ::
  "env \<Rightarrow> string \<Rightarrow> int \<Rightarrow> world \<Rightarrow> (fault + string option \<times> int) \<times> world" where
  "load_url e url size0 w =
     (if \<not> curl_easy_init_ok e then (Inr (None, size0), w)
      else
        let w1 = w\<lparr>trace := trace w @ [Fetch url]\<rparr>
        in case curl_easy_perform e url of
             None \<Rightarrow> (Inr (None, size0), w1)
           | Some body \<Rightarrow>
               if length body < 2 ^ 31
               then (Inr (if body = [] then None else Some body, int (length body)), w1)
               else (Inl InvalidWrite, w1))"

subsection \<open>mkpath (lines 109 to 152)\<close>

text \<open>
  The loop of lines 133 to 144: \<open>buffer\<close> is the part of the path before \<open>p\<close>, the
  second argument the part from \<open>p\<close> on. At a separator the prefix is created; the loop
  gives up only when \<open>mkdir\<close> fails with \<open>ENOENT\<close>.
\<close>

fun mkpath_loop :: "string \<Rightarrow> string \<Rightarrow> world \<Rightarrow> int \<times> world" where
  "mkpath_loop buffer [] w = (1, w)"
| "mkpath_loop buffer (c # cs) w =
     (if c = CHR 0x5C \<or> c = CHR ''/''
      then (case mkdir buffer w of
              (Some ENOENT, w') \<Rightarrow> (0, w')
            | (_, w') \<Rightarrow> mkpath_loop (buffer @ [c]) cs w')
      else mkpath_loop (buffer @ [c]) cs w)"

text \<open>
  \<open>path\<close> is a C string. \<open>malloc(len + 1)\<close> succeeds when that many bytes are
  available; the buffer is freed on every way out, so the heap is left as it was.
\<close>

definition mkpath :: "string \<Rightarrow> world \<Rightarrow> int \<times> world" where
  "mkpath path w =
     (if length path \<le> 0 then (0, w)
      else if \<not> (length path + 1 \<le> mem_avail w) then (0, w)
      else
        case (if last path = CHR ''/''
              then (case mkdir (butlast path) w of
                      (None, w1) \<Rightarrow> (True, w1)
                    | (Some _, w1) \<Rightarrow> (False, w1))
              else (False, w)) of
          (True, w1) \<Rightarrow> (1, w1)
        | (False, w1) \<Rightarrow> mkpath_loop (take 1 path) (drop 1 path) w1)"

subsection \<open>The supplier\<close>

text \<open>
  The members of the class: the search roots \<open>paths_\<close> and the map \<open>memory_buffers_\<close>
  from a code file name to the address of a buffer.
\<close>

record SimpleSymbolSupplier =
  paths :: "string list"
  memory_buffers :: "string \<rightharpoonup> nat"

text \<open>\<open>file_exists\<close> (lines 156 to 159).\<close>

definition file_exists :: "string \<Rightarrow> world \<Rightarrow> bool" where
  "file_exists file_name w = stat_ok (c_str file_name) w"

text \<open>
  Lines 310 to 330, the body of the first \<open>if (!file_exists(path))\<close>. \<open>buf_size\<close> is
  declared without a value, so \<open>load_url\<close> starts from \<open>uninit_int\<close>. The result of
  \<open>mkpath\<close> is not looked at, and neither is the pointer \<open>data\<close>. The command line
  is the one of the \<open>__linux__\<close> branch.
\<close>

definition convert_cmd :: "string \<Rightarrow> string \<Rightarrow> string" where
  "convert_cmd path_pdb path = ''wine dump_syms.exe '' @ path_pdb @ '' >'' @ path"

definition download_and_convert ::
  "env \<Rightarrow> string \<Rightarrow> string \<Rightarrow> string \<Rightarrow> world \<Rightarrow> fault option \<times> world" where
  "download_and_convert e root_path path path_pdb w =
     (let url = symbol_url root_path path_pdb
      in case load_url e (c_str url) (uninit_int e) w of
           (Inl flt, w1) \<Rightarrow> (Some flt, w1)
         | (Inr (data, buf_size), w1) \<Rightarrow>
             (let (made, w2) = mkpath (c_str path_pdb) w1;
                  (f, w3) = fopen_wb (c_str path_pdb) w2
              in (case (if f then fwrite data buf_size (c_str path_pdb) w3 else (None, w3)) of
                    (Some flt, w4) \<Rightarrow> (Some flt, w4)
                  | (None, w4) \<Rightarrow>
                      (let (status, w5) = system_call e (c_str (convert_cmd path_pdb path)) w4
                       in (None, if status = 0 then unlink (c_str path_pdb) w5 else w5)))))"

text \<open>
  \<open>GetSymbolFileAtPathFromRoot\<close> (lines 243 to 340). The module is a pointer: \<open>None\<close>
  is the null pointer. The result is a fault, or the \<open>SymbolResult\<close> with the string left
  in \<open>*symbol_file\<close>.
\<close>

definition GetSymbolFileAtPathFromRoot ::
  "env \<Rightarrow> CodeModule option \<Rightarrow> string \<Rightarrow> world \<Rightarrow> (fault + SymbolResult \<times> string) \<times> world" where
  "GetSymbolFileAtPathFromRoot e module root_path w =
     (case module of
        None \<Rightarrow> (Inr (NOT_FOUND, []), w)
      | Some m \<Rightarrow>
          (case symbol_paths m root_path of
             None \<Rightarrow> (Inr (NOT_FOUND, []), w)
           | Some (path, path_pdb) \<Rightarrow>
               (case (if \<not> file_exists path w
                      then download_and_convert e root_path path path_pdb w
                      else (None, w)) of
                  (Some flt, w1) \<Rightarrow> (Inl flt, w1)
                | (None, w1) \<Rightarrow>
                    if \<not> file_exists path w1 then (Inr (NOT_FOUND, []), w1)
                    else (Inr (FOUND, path), w1))))"

text \<open>\<open>GetSymbolFile\<close> with three arguments (lines 161 to 178): the loop over the roots.\<close>

fun GetSymbolFile_roots ::
  "env \<Rightarrow> CodeModule option \<Rightarrow> string list \<Rightarrow> world \<Rightarrow> (fault + SymbolResult \<times> string) \<times> world" where
  "GetSymbolFile_roots e module [] w = (Inr (NOT_FOUND, []), w)"
| "GetSymbolFile_roots e module (root_path # rest) w =
     (case GetSymbolFileAtPathFromRoot e module root_path w of
        (Inr (NOT_FOUND, symbol_file), w1) \<Rightarrow> GetSymbolFile_roots e module rest w1
      | other \<Rightarrow> other)"

definition GetSymbolFile ::
  "env \<Rightarrow> SimpleSymbolSupplier \<Rightarrow> CodeModule option \<Rightarrow> world \<Rightarrow> (fault + SymbolResult \<times> string) \<times> world" where
  "GetSymbolFile e s module w = GetSymbolFile_roots e module (paths s) w"

text \<open>
  \<open>GetSymbolFile\<close> with four arguments (lines 180 to 197): the result carries
  \<open>*symbol_file\<close> and \<open>*symbol_data\<close>.
\<close>

definition GetSymbolFileData ::
  "env \<Rightarrow> SimpleSymbolSupplier \<Rightarrow> CodeModule option \<Rightarrow> world \<Rightarrow>
     (fault + SymbolResult \<times> string \<times> string) \<times> world" where
  "GetSymbolFileData e s module w =
     (case GetSymbolFile e s module w of
        (Inl flt, w1) \<Rightarrow> (Inl flt, w1)
      | (Inr (r, symbol_file), w1) \<Rightarrow>
          (Inr (r, symbol_file,
                if r = FOUND then getline_eof (c_str symbol_file) w1 else []), w1))"

text \<open>
  \<open>memory_buffers_.insert(make_pair(key, buffer))\<close>: \<open>std::map::insert\<close> adds the pair
  only when the map has no element with that key.
\<close>

definition map_insert :: "('k \<rightharpoonup> 'v) \<Rightarrow> 'k \<Rightarrow> 'v \<Rightarrow> ('k \<rightharpoonup> 'v)" where
  "map_insert t k v = (case t k of None \<Rightarrow> t(k \<mapsto> v) | Some old \<Rightarrow> t)"

text \<open>
  \<open>GetCStringSymbolData\<close> (lines 199 to 225). Beside the \<open>SymbolResult\<close> and
  \<open>*symbol_file\<close>, the result is what the call stored in \<open>*symbol_data\<close> and
  \<open>*symbol_data_size\<close>: \<open>None\<close> when they were not written, else the pointer (\<open>None\<close>
  is null) and the size. The test of line 215 is the branch for a null pointer from
  \<open>new\<close>.
\<close>

definition GetCStringSymbolData ::
  "env \<Rightarrow> SimpleSymbolSupplier \<Rightarrow> CodeModule option \<Rightarrow> world \<Rightarrow>
     (fault + SymbolResult \<times> string \<times> (nat option \<times> nat) option) \<times> SimpleSymbolSupplier \<times> world" where
  "GetCStringSymbolData e s module w =
     (case GetSymbolFileData e s module w of
        (Inl flt, w1) \<Rightarrow> (Inl flt, s, w1)
      | (Inr (r, symbol_file, symbol_data_string), w1) \<Rightarrow>
          if r = FOUND then
            let symbol_data_size = length symbol_data_string + 1
            in (case new_char_array e symbol_data_size w1 of
                  (Inl flt, w2) \<Rightarrow> (Inl flt, s, w2)
                | (Inr None, w2) \<Rightarrow>
                    (Inr (INTERRUPT, symbol_file, Some (None, symbol_data_size)), s, w2)
                | (Inr (Some symbol_data), w2) \<Rightarrow>
                    (let w3 = memcpy symbol_data symbol_data_string w2;
                         w4 = store_char symbol_data (length symbol_data_string) (CHR 0x00) w3
                     in (case module of
                           None \<Rightarrow> (Inl NullModule, s, w4)
                         | Some m \<Rightarrow>
                             (Inr (r, symbol_file, Some (Some symbol_data, symbol_data_size)),
                              s\<lparr>memory_buffers :=
                                  map_insert (memory_buffers s) (code_file m) symbol_data\<rparr>,
                              w4))))
          else (Inr (r, symbol_file, None), s, w1))"

text \<open>\<open>FreeSymbolData\<close> (lines 227 to 241).\<close>

definition FreeSymbolData ::
  "SimpleSymbolSupplier \<Rightarrow> CodeModule option \<Rightarrow> world \<Rightarrow> SimpleSymbolSupplier \<times> world" where
  "FreeSymbolData s module w =
     (case module of
        None \<Rightarrow> (s, w)
      | Some m \<Rightarrow>
          (case memory_buffers s (code_file m) of
             None \<Rightarrow> (s, w)
           | Some buffer \<Rightarrow>
               (s\<lparr>memory_buffers := (memory_buffers s)(code_file m := None)\<rparr>,
                delete_array buffer w)))"

subsection \<open>Reading the trace\<close>

text \<open>
  The calls a step added to the trace, whether one of them is a \<open>mkdir\<close> that failed
  with \<open>ENOENT\<close>, and the directories the loop of \<open>mkpath\<close> asks for: the prefixes of
  the path that end before a separator, the first character never counting as one.
\<close>

definition new_calls :: "world \<Rightarrow> world \<Rightarrow> call list" where
  "new_calls w w' = drop (length (trace w)) (trace w')"

fun mkdir_ENOENT :: "call \<Rightarrow> bool" where
  "mkdir_ENOENT (Mkdir d (Some ENOENT)) = True"
| "mkdir_ENOENT c = False"

definition ENOENT_among :: "call list \<Rightarrow> bool" where
  "ENOENT_among cs = list_ex mkdir_ENOENT cs"

fun loop_dirs :: "string \<Rightarrow> string \<Rightarrow> string list" where
  "loop_dirs buffer [] = []"
| "loop_dirs buffer (c # cs) =
     (if c = CHR 0x5C \<or> c = CHR ''/''
      then buffer # loop_dirs (buffer @ [c]) cs
      else loop_dirs (buffer @ [c]) cs)"

definition mkpath_dirs :: "string \<Rightarrow> string list" where
  "mkpath_dirs path = loop_dirs (take 1 path) (drop 1 path)"

subsection \<open>Example inputs\<close>

text \<open>
  The module of the scenario (no debug file, an identifier), a module with a version
  only, one with neither, and one whose code file name is too short to give a debug file
  name.
\<close>

definition app_exe :: CodeModule where
  "app_exe = \<lparr>code_file = ''app.exe'', debug_file = [],
               debug_identifier = ''ABC123'', version = []\<rparr>"

definition tool_dll :: CodeModule where
  "tool_dll = \<lparr>code_file = ''C:/bin/tool.dll'', debug_file = ''D:/build/Tool.PDB'',
                debug_identifier = [], version = ''1.2.3''\<rparr>"

definition bare_module :: CodeModule where
  "bare_module = \<lparr>code_file = ''libc.so'', debug_file = ''libc.dbg'',
                   debug_identifier = [], version = []\<rparr>"

definition short_module :: CodeModule where
  "short_module = \<lparr>code_file = ''/usr/bin/ls'', debug_file = [],
                    debug_identifier = ''0F0F'', version = ''8.32''\<rparr>"

text \<open>
  An environment with no network and a converter that fails and leaves the file system
  alone; the uninitialised \<open>int\<close> happens to be zero.
\<close>

definition offline :: env where
  "offline = \<lparr>curl_easy_init_ok = True, curl_easy_perform = (\<lambda>url. None),
               system = (\<lambda>cmd fs. (1, fs)), uninit_int = 0, uninit_char = CHR 0xCD\<rparr>"

text \<open>
  File systems: an empty cache directory; a directory that accepts no entries; a cache
  that holds the symbol file of \<open>app_exe\<close>.
\<close>

definition cache_world :: world where
  "cache_world = \<lparr>files = [''/'' \<mapsto> Directory True, ''/cache'' \<mapsto> Directory True],
                   heap = Map.empty, next_addr = 0, mem_avail = 4096, trace = []\<rparr>"

definition ro_world :: world where
  "ro_world = \<lparr>files = [''/'' \<mapsto> Directory True, ''/ro'' \<mapsto> Directory False],
                heap = Map.empty, next_addr = 0, mem_avail = 4096, trace = []\<rparr>"

definition hit_world :: world where
  "hit_world = \<lparr>files = [''/cache/app.pdb/ABC123/app.sym'' \<mapsto> Regular ''MODULE''],
                 heap = Map.empty, next_addr = 0, mem_avail = 4096, trace = []\<rparr>"

definition cache_supplier :: SimpleSymbolSupplier where
  "cache_supplier = \<lparr>paths = [''/cache'', ''/mnt/symbols''], memory_buffers = Map.empty\<rparr>"

text \<open>
  A supplier that already holds a buffer for \<open>app.exe\<close>, with the world in which that
  buffer lives, and a world with too little memory for one more buffer.
\<close>

definition busy_supplier :: SimpleSymbolSupplier where
  "busy_supplier = \<lparr>paths = [''/cache''], memory_buffers = [''app.exe'' \<mapsto> 0]\<rparr>"

definition busy_world :: world where
  "busy_world = \<lparr>files = [''/cache/app.pdb/ABC123/app.sym'' \<mapsto> Regular ''MODULE''],
                  heap = [0 \<mapsto> ''MODULE'' @ [CHR 0x00]], next_addr = 1, mem_avail = 4089,
                  trace = []\<rparr>"

definition full_world :: world where
  "full_world = \<lparr>files = [''/cache/app.pdb/ABC123/app.sym'' \<mapsto> Regular ''MODULE''],
                  heap = Map.empty, next_addr = 0, mem_avail = 6, trace = []\<rparr>"

text \<open>A file system in which \<open>/cache\<close> is a regular file.\<close>

definition file_world :: world where
  "file_world = \<lparr>files = [''/'' \<mapsto> Directory True, ''/cache'' \<mapsto> Regular ''x''],
                  heap = Map.empty, next_addr = 0, mem_avail = 4096, trace = []\<rparr>"

text \<open>A cache whose symbol file holds the byte \<open>0xFF\<close> between two letters.\<close>

definition xff_world :: world where
  "xff_world = \<lparr>files = [''/cache/app.pdb/ABC123/app.sym'' \<mapsto> Regular [CHR ''A'', CHR 0xFF, CHR ''B'']],
                 heap = Map.empty, next_addr = 0, mem_avail = 4096, trace = []\<rparr>"

section \<open>Path derivation\<close>

text \<open>The lower-case letters that the examples need, computed once.\<close>

lemma char_of_lower_case:
  "char_of (112::nat) = CHR ''p''" "char_of (100::nat) = CHR ''d''"
  "char_of (98::nat) = CHR ''b''"
  by code_simp+

text \<open>
  C1. For the module with code file \<open>app.exe\<close>, no debug file, debug identifier
  \<open>ABC123\<close> and no version, and the root \<open>/cache\<close>: the debug file name is
  synthesised as \<open>app.pdb\<close>, the symbol path is \<open>/cache/app.pdb/ABC123/app.sym\<close>,
  and the URL fetched is the fixed base URL followed by \<open>/app.pdb/ABC123/app.pdb\<close>.
  \<open>GetSymbolFileAtPathFromRoot\<close> returns that symbol path when the file is in the
  cache, and starts with a download from that URL when it is not.
\<close>

theorem app_exe_derivation:
  "debug_file_name_of app_exe = ''app.pdb''
   \<and> symbol_paths app_exe ''/cache''
       = Some (''/cache/app.pdb/ABC123/app.sym'', ''/cache/app.pdb/ABC123/app.pdb'')
   \<and> url_suffix ''/cache'' ''/cache/app.pdb/ABC123/app.pdb'' = ''/app.pdb/ABC123/app.pdb''
   \<and> symbol_url ''/cache'' ''/cache/app.pdb/ABC123/app.pdb''
       = symbol_server @ ''/app.pdb/ABC123/app.pdb''
   \<and> fst (GetSymbolFileAtPathFromRoot offline (Some app_exe) ''/cache'' hit_world)
       = Inr (FOUND, ''/cache/app.pdb/ABC123/app.sym'')
   \<and> hd (trace (snd (GetSymbolFileAtPathFromRoot offline (Some app_exe) ''/cache'' cache_world)))
       = Fetch (symbol_server @ ''/app.pdb/ABC123/app.pdb'')"
  by code_simp

text \<open>
  C7. For every module with an empty debug file whose code file base name has three
  characters or fewer, \<open>GetSymbolFileAtPathFromRoot\<close> returns \<open>NOT_FOUND\<close> for every
  root and leaves the world as it was: nothing is fetched and nothing is converted.
\<close>

theorem short_code_file_not_found:
  assumes "debug_file m = []" and "length (File (code_file m)) \<le> 3"
  shows "GetSymbolFileAtPathFromRoot e (Some m) root_path w = (Inr (NOT_FOUND, []), w)"
  using assms
  by (simp add: GetSymbolFileAtPathFromRoot_def symbol_paths_def debug_file_name_of_def
      File_def)

theorem short_code_file_not_found_witness:
  "GetSymbolFileAtPathFromRoot offline (Some short_module) ''/cache'' cache_world
     = (Inr (NOT_FOUND, []), cache_world)"
  using short_code_file_not_found [of short_module offline "''/cache''" cache_world]
  by (simp add: short_module_def File_def)

text \<open>
  C8. The stem of a debug file base name: when the name has more than four characters and
  its last four characters, lower-cased, are \<open>.pdb\<close>, the stem is the name without them;
  in every other case the stem is the name itself. A name of four characters is never
  shortened, so the name \<open>.pdb\<close> is its own stem. The symbol path and the pdb path end
  with the stem of the module's debug file name.
\<close>

theorem symbol_file_stem_rule:
  "symbol_file_stem name =
     (if 4 < length name \<and> map tolower (drop (length name - 4) name) = ''.pdb''
      then take (length name - 4) name else name)
   \<and> symbol_file_stem ''.pdb'' = ''.pdb''
   \<and> (case symbol_paths m root_path of
         None \<Rightarrow> debug_file_name_of m = []
       | Some (path, path_pdb) \<Rightarrow>
           path = root_path @ ''/'' @ debug_file_name_of m @ identifier_segment m @ ''/''
                    @ symbol_file_stem (debug_file_name_of m) @ ''.sym''
           \<and> path_pdb = root_path @ ''/'' @ debug_file_name_of m @ identifier_segment m @ ''/''
                    @ symbol_file_stem (debug_file_name_of m) @ ''.pdb'')"
  by (auto simp: symbol_file_stem_def symbol_paths_def Let_def)

theorem symbol_file_stem_rule_witness:
  "symbol_file_stem ''Tool.PDB'' = ''Tool''
   \<and> symbol_file_stem ''libc.dbg'' = ''libc.dbg''
   \<and> symbol_file_stem ''.PDB'' = ''.PDB''
   \<and> symbol_paths tool_dll ''/cache''
       = Some (''/cache/Tool.PDB/1.2.3/Tool.sym'', ''/cache/Tool.PDB/1.2.3/Tool.pdb'')"
  using symbol_file_stem_rule [of "''Tool.PDB''" tool_dll "''/cache''"]
    symbol_file_stem_rule [of "''libc.dbg''" tool_dll "''/cache''"]
    symbol_file_stem_rule [of "''.PDB''" tool_dll "''/cache''"]
  by (simp add: tolower_def less_eq_char_def char_of_lower_case tool_dll_def
      debug_file_name_of_def File_def identifier_segment_def symbol_paths_def
      split: option.splits)

text \<open>
  C9. The path segment after the debug file name is the debug identifier when that is not
  empty, else the version when that is not empty, else there is no such segment: the
  stem follows the debug file name directly.
\<close>

theorem identifier_or_version_segment:
  assumes "debug_file_name_of m = d" and "d \<noteq> []" and "symbol_file_stem d = st"
  shows "(debug_identifier m \<noteq> [] \<longrightarrow>
            symbol_paths m root_path
              = Some (root_path @ ''/'' @ d @ ''/'' @ debug_identifier m @ ''/'' @ st @ ''.sym'',
                      root_path @ ''/'' @ d @ ''/'' @ debug_identifier m @ ''/'' @ st @ ''.pdb''))
       \<and> (debug_identifier m = [] \<and> version m \<noteq> [] \<longrightarrow>
            symbol_paths m root_path
              = Some (root_path @ ''/'' @ d @ ''/'' @ version m @ ''/'' @ st @ ''.sym'',
                      root_path @ ''/'' @ d @ ''/'' @ version m @ ''/'' @ st @ ''.pdb''))
       \<and> (debug_identifier m = [] \<and> version m = [] \<longrightarrow>
            symbol_paths m root_path
              = Some (root_path @ ''/'' @ d @ ''/'' @ st @ ''.sym'',
                      root_path @ ''/'' @ d @ ''/'' @ st @ ''.pdb''))"
  using assms by (simp add: symbol_paths_def identifier_segment_def)

theorem identifier_or_version_segment_witness:
  "symbol_paths app_exe ''/cache''
     = Some (''/cache/app.pdb/ABC123/app.sym'', ''/cache/app.pdb/ABC123/app.pdb'')
   \<and> symbol_paths tool_dll ''/cache''
     = Some (''/cache/Tool.PDB/1.2.3/Tool.sym'', ''/cache/Tool.PDB/1.2.3/Tool.pdb'')
   \<and> symbol_paths bare_module ''/cache''
     = Some (''/cache/libc.dbg/libc.dbg.sym'', ''/cache/libc.dbg/libc.dbg.pdb'')"
proof -
  have a: "debug_file_name_of app_exe = ''app.pdb''"
    and t: "debug_file_name_of tool_dll = ''Tool.PDB''"
    and b: "debug_file_name_of bare_module = ''libc.dbg''"
    by (simp_all add: debug_file_name_of_def File_def app_exe_def tool_dll_def bare_module_def)
  have sa: "symbol_file_stem ''app.pdb'' = ''app''"
    and st: "symbol_file_stem ''Tool.PDB'' = ''Tool''"
    and sb: "symbol_file_stem ''libc.dbg'' = ''libc.dbg''"
    by (simp_all add: symbol_file_stem_def tolower_def less_eq_char_def char_of_lower_case)
  show ?thesis
    using identifier_or_version_segment [OF a _ sa, of "''/cache''"]
      identifier_or_version_segment [OF t _ st, of "''/cache''"]
      identifier_or_version_segment [OF b _ sb, of "''/cache''"]
    by (simp add: app_exe_def tool_dll_def bare_module_def)
qed

section \<open>Directory creation\<close>

text \<open>
  Below a regular file \<open>mkdir\<close> answers \<open>ENOTDIR\<close>, at any depth; below a missing
  directory it answers \<open>ENOENT\<close>.
\<close>

lemma mkdir_below_a_file:
  "ancestors ''/cache/a/b'' = [''/cache'', ''/cache/a'']
   \<and> mkdir_errno ''/cache/a'' file_world = Some ENOTDIR
   \<and> mkdir_errno ''/cache/a/b'' file_world = Some ENOTDIR
   \<and> mkdir_errno ''/other/a'' file_world = Some ENOENT
   \<and> mkdir_errno ''/other'' file_world = None"
  by code_simp

text \<open>Every \<open>mkdir\<close> adds one entry to the trace; an existing path answers \<open>EEXIST\<close>.\<close>

lemma mkdir_trace: "mkdir p w = (r, w') \<Longrightarrow> trace w' = trace w @ [Mkdir p r]"
  by (auto simp: mkdir_def Let_def)

lemma mkdir_files_exists:
  "p \<noteq> [] \<Longrightarrow> files w p \<noteq> None \<Longrightarrow> mkdir p w = (Some EEXIST, w\<lparr>trace := trace w @ [Mkdir p (Some EEXIST)]\<rparr>)"
  by (auto simp: mkdir_def mkdir_errno_def Let_def)

lemma ENOENT_among_Cons:
  "ENOENT_among (c # cs) = (mkdir_ENOENT c \<or> ENOENT_among cs)"
  by (simp add: ENOENT_among_def)

lemma mkpath_loop_trace:
  "mkpath_loop buffer rest w = (r, w') \<Longrightarrow>
     \<exists>t. trace w' = trace w @ t \<and> (r = 0 \<or> r = 1) \<and> (r = 0) = ENOENT_among t"
proof (induction rest arbitrary: buffer w)
  case Nil
  then show ?case by (simp add: ENOENT_among_def)
next
  case (Cons c cs)
  show ?case
  proof (cases "c = CHR 0x5C \<or> c = CHR ''/''")
    case False
    with Cons.prems have "mkpath_loop (buffer @ [c]) cs w = (r, w')" by simp
    from Cons.IH [OF this] show ?thesis .
  next
    case True
    obtain e w1 where m: "mkdir buffer w = (e, w1)" by (cases "mkdir buffer w")
    have t1: "trace w1 = trace w @ [Mkdir buffer e]" using mkdir_trace [OF m] .
    show ?thesis
    proof (cases "e = Some ENOENT")
      case True
      with \<open>c = CHR 0x5C \<or> c = CHR ''/''\<close> m Cons.prems have "r = 0" "w' = w1" by auto
      with t1 True show ?thesis by (auto simp: ENOENT_among_def)
    next
      case False
      with \<open>c = CHR 0x5C \<or> c = CHR ''/''\<close> m Cons.prems
      have "mkpath_loop (buffer @ [c]) cs w1 = (r, w')"
        by (auto split: option.splits errno.splits)
      from Cons.IH [OF this] obtain t where
        t: "trace w' = trace w1 @ t" "r = 0 \<or> r = 1" "(r = 0) = ENOENT_among t" by blast
      have "\<not> mkdir_ENOENT (Mkdir buffer e)" using False
        by (cases e) (auto elim: mkdir_ENOENT.elims)
      with t t1 have "trace w' = trace w @ (Mkdir buffer e # t) \<and> (r = 0 \<or> r = 1)
          \<and> (r = 0) = ENOENT_among (Mkdir buffer e # t)"
        by (simp add: ENOENT_among_Cons)
      then show ?thesis by blast
    qed
  qed
qed

lemma mkpath_loop_existing:
  "\<forall>d \<in> set (loop_dirs buffer rest). files w d \<noteq> None \<Longrightarrow> buffer \<noteq> [] \<Longrightarrow>
     \<exists>t. mkpath_loop buffer rest w = (1, w\<lparr>trace := trace w @ t\<rparr>)"
proof (induction rest arbitrary: buffer w)
  case Nil
  show ?case by (rule exI [of _ "[]"]) simp
next
  case (Cons c cs)
  show ?case
  proof (cases "c = CHR 0x5C \<or> c = CHR ''/''")
    case False
    with Cons.prems have "\<forall>d \<in> set (loop_dirs (buffer @ [c]) cs). files w d \<noteq> None" by simp
    from Cons.IH [OF this] False show ?thesis by simp
  next
    case True
    with Cons.prems have ex: "files w buffer \<noteq> None"
      and rest: "\<forall>d \<in> set (loop_dirs (buffer @ [c]) cs). files w d \<noteq> None" by auto
    let ?w1 = "w\<lparr>trace := trace w @ [Mkdir buffer (Some EEXIST)]\<rparr>"
    have m: "mkdir buffer w = (Some EEXIST, ?w1)"
      using mkdir_files_exists [OF Cons.prems(2) ex] .
    from rest have "\<forall>d \<in> set (loop_dirs (buffer @ [c]) cs). files ?w1 d \<noteq> None" by simp
    from Cons.IH [OF this] obtain t where
      "mkpath_loop (buffer @ [c]) cs ?w1 = (1, ?w1\<lparr>trace := trace ?w1 @ t\<rparr>)" by auto
    with True m have "mkpath_loop buffer (c # cs) w
        = (1, w\<lparr>trace := trace w @ (Mkdir buffer (Some EEXIST) # t)\<rparr>)" by simp
    then show ?thesis by blast
  qed
qed

lemma loop_dirs_last:
  "c = CHR 0x5C \<or> c = CHR ''/'' \<Longrightarrow> buffer @ pre \<in> set (loop_dirs buffer (pre @ [c]))"
proof (induction pre arbitrary: buffer)
  case Nil
  then show ?case by auto
next
  case (Cons a pre)
  from Cons.IH [OF Cons.prems, of "buffer @ [a]"] show ?case by auto
qed

lemma mkpath_existing:
  assumes "path \<noteq> []" and "length path + 1 \<le> mem_avail w"
    and "\<forall>d \<in> set (mkpath_dirs path). files w d \<noteq> None"
  shows "\<exists>t. mkpath path w = (1, w\<lparr>trace := trace w @ t\<rparr>)"
proof -
  have b: "take 1 path \<noteq> []" using assms(1) by (cases path) auto
  have dirs: "\<forall>d \<in> set (loop_dirs (take 1 path) (drop 1 path)). files w d \<noteq> None"
    using assms(3) by (simp add: mkpath_dirs_def)
  show ?thesis
  proof (cases "last path = CHR ''/''")
    case False
    from mkpath_loop_existing [OF dirs b] obtain t where
      "mkpath_loop (take 1 path) (drop 1 path) w = (1, w\<lparr>trace := trace w @ t\<rparr>)" ..
    with False assms(1,2) show ?thesis by (auto simp: mkpath_def)
  next
    case True
    let ?d = "butlast path"
    obtain e where e: "mkdir_errno ?d w = Some e"
    proof (cases "?d = []")
      case True
      then have "mkdir_errno ?d w = Some ENOENT" by (simp add: mkdir_errno_def)
      then show ?thesis using that by blast
    next
      case False
      obtain x xs where path: "path = x # xs" using assms(1) by (cases path) auto
      with False have xs: "xs \<noteq> []" by auto
      have bl: "butlast path = x # butlast xs" using path xs by simp
      have dr: "drop 1 path = butlast xs @ [last path]" using path xs by simp
      have "[x] @ butlast xs \<in> set (loop_dirs [x] (butlast xs @ [last path]))"
        using loop_dirs_last [of "last path" "[x]" "butlast xs"] True by simp
      then have "?d \<in> set (mkpath_dirs path)"
        using path bl dr by (simp add: mkpath_dirs_def)
      with assms(3) have "files w ?d \<noteq> None" by blast
      with False have "mkdir_errno ?d w = Some EEXIST"
        by (auto simp: mkdir_errno_def)
      then show ?thesis using that by blast
    qed
    let ?w1 = "w\<lparr>trace := trace w @ [Mkdir ?d (Some e)]\<rparr>"
    have m: "mkdir ?d w = (Some e, ?w1)" using e by (simp add: mkdir_def Let_def)
    from dirs have "\<forall>d \<in> set (loop_dirs (take 1 path) (drop 1 path)). files ?w1 d \<noteq> None"
      by simp
    from mkpath_loop_existing [OF this b] obtain t where
      "mkpath_loop (take 1 path) (drop 1 path) ?w1 = (1, ?w1\<lparr>trace := trace ?w1 @ t\<rparr>)" ..
    with True m assms(1,2) have
      "mkpath path w = (1, w\<lparr>trace := trace w @ (Mkdir ?d (Some e) # t)\<rparr>)"
      by (simp add: mkpath_def)
    then show ?thesis by blast
  qed
qed

lemma mkpath_trace:
  assumes "mkpath path w = (r, w')"
  shows "\<exists>t. trace w' = trace w @ t \<and> (r = 0 \<or> r = 1)
           \<and> (r = 0 \<longrightarrow> path = [] \<or> mem_avail w < length path + 1 \<or> ENOENT_among t)
           \<and> (path \<noteq> [] \<and> length path + 1 \<le> mem_avail w \<and> last path \<noteq> CHR ''/''
                 \<and> ENOENT_among t \<longrightarrow> r = 0)"
proof (cases "path = [] \<or> mem_avail w < length path + 1")
  case True
  with assms have "r = 0" "w' = w" by (auto simp: mkpath_def split: if_splits)
  with True show ?thesis by auto
next
  case ok: False
  show ?thesis
  proof (cases "last path = CHR ''/''")
    case False
    with ok assms have "mkpath_loop (take 1 path) (drop 1 path) w = (r, w')"
      by (auto simp: mkpath_def)
    from mkpath_loop_trace [OF this] False ok show ?thesis by auto
  next
    case True
    obtain e w1 where m: "mkdir (butlast path) w = (e, w1)" by (cases "mkdir (butlast path) w")
    have t1: "trace w1 = trace w @ [Mkdir (butlast path) e]" using mkdir_trace [OF m] .
    show ?thesis
    proof (cases e)
      case None
      with ok True m assms have "r = 1" "w' = w1" by (auto simp: mkpath_def)
      with t1 True show ?thesis by auto
    next
      case (Some err)
      with ok True m assms have "mkpath_loop (take 1 path) (drop 1 path) w1 = (r, w')"
        by (auto simp: mkpath_def)
      from mkpath_loop_trace [OF this] obtain t where
        t: "trace w' = trace w1 @ t" "r = 0 \<or> r = 1" "(r = 0) = ENOENT_among t" by blast
      with t1 have "trace w' = trace w @ (Mkdir (butlast path) e # t)" by simp
      moreover have "ENOENT_among t \<Longrightarrow> ENOENT_among (Mkdir (butlast path) e # t)"
        by (simp add: ENOENT_among_Cons)
      ultimately show ?thesis using t True by blast
    qed
  qed
qed


text \<open>
  C5, as the code has it. \<open>mkpath\<close> returns 0 or 1. It accepts directories that exist:
  when the path is not empty, the buffer can be allocated and every directory it asks for
  is there, it returns 1 and changes no file. It returns 0 only for an empty path, a
  failed allocation or a \<open>mkdir\<close> that failed with \<open>ENOENT\<close>, and for a path with no
  trailing separator every such \<open>mkdir\<close> makes it return 0. No other failure of
  \<open>mkdir\<close>, permission denied included, makes \<open>mkpath\<close> fail.
\<close>

theorem mkpath_gives_up_only_on_ENOENT:
  assumes "mkpath path w = (r, w')"
  shows "(r = 0 \<or> r = 1)
       \<and> (r = 0 \<longrightarrow> path = [] \<or> mem_avail w < length path + 1
                   \<or> ENOENT_among (new_calls w w'))
       \<and> (path \<noteq> [] \<and> length path + 1 \<le> mem_avail w \<and> last path \<noteq> CHR ''/''
             \<and> ENOENT_among (new_calls w w') \<longrightarrow> r = 0)
       \<and> (path \<noteq> [] \<and> length path + 1 \<le> mem_avail w
             \<and> (\<forall>d \<in> set (mkpath_dirs path). files w d \<noteq> None)
           \<longrightarrow> r = 1 \<and> files w' = files w)"
proof -
  from mkpath_trace [OF assms] obtain t where
    t: "trace w' = trace w @ t" "r = 0 \<or> r = 1"
      "r = 0 \<longrightarrow> path = [] \<or> mem_avail w < length path + 1 \<or> ENOENT_among t"
      "path \<noteq> [] \<and> length path + 1 \<le> mem_avail w \<and> last path \<noteq> CHR ''/''
         \<and> ENOENT_among t \<longrightarrow> r = 0"
    by blast
  have n: "new_calls w w' = t" using t(1) by (simp add: new_calls_def)
  have "r = 1 \<and> files w' = files w"
    if "path \<noteq> []" "length path + 1 \<le> mem_avail w"
      "\<forall>d \<in> set (mkpath_dirs path). files w d \<noteq> None"
  proof -
    from mkpath_existing [OF that] obtain u where
      "mkpath path w = (1, w\<lparr>trace := trace w @ u\<rparr>)" ..
    with assms show ?thesis by auto
  qed
  with t n show ?thesis by blast
qed

theorem mkpath_gives_up_only_on_ENOENT_witness:
  "fst (mkpath ''/cache/app.pdb'' cache_world) = 1
   \<and> files (snd (mkpath ''/cache/app.pdb'' cache_world)) = files cache_world
   \<and> ENOENT_among (new_calls ro_world (snd (mkpath ''/ro/a/b/app.pdb'' ro_world)))
   \<and> fst (mkpath ''/ro/a/b/app.pdb'' ro_world) = 0"
proof -
  have d: "\<forall>d \<in> set (mkpath_dirs ''/cache/app.pdb''). files cache_world d \<noteq> None"
    by (simp add: mkpath_dirs_def cache_world_def)
  have m: "length ''/cache/app.pdb'' + 1 \<le> mem_avail cache_world"
    "length ''/ro/a/b/app.pdb'' + 1 \<le> mem_avail ro_world"
    by (simp_all add: cache_world_def ro_world_def)
  have e: "ENOENT_among (new_calls ro_world (snd (mkpath ''/ro/a/b/app.pdb'' ro_world)))"
    by code_simp
  show ?thesis
    using mkpath_gives_up_only_on_ENOENT [of "''/cache/app.pdb''" cache_world
        "fst (mkpath ''/cache/app.pdb'' cache_world)"
        "snd (mkpath ''/cache/app.pdb'' cache_world)"]
      mkpath_gives_up_only_on_ENOENT [of "''/ro/a/b/app.pdb''" ro_world
        "fst (mkpath ''/ro/a/b/app.pdb'' ro_world)"
        "snd (mkpath ''/ro/a/b/app.pdb'' ro_world)"]
      d m e
    by simp
qed

text \<open>
  C5 as stated fails: below a directory that accepts no entries, \<open>mkdir\<close> of \<open>/ro/a\<close>
  is refused with \<open>EACCES\<close>, the directory is not there afterwards, and \<open>mkpath\<close>
  still returns 1.
\<close>

theorem mkpath_permission_denied_counterexample:
  "mkdir_errno ''/ro/a'' ro_world = Some EACCES
   \<and> fst (mkpath ''/ro/a/app.pdb'' ro_world) = 1
   \<and> new_calls ro_world (snd (mkpath ''/ro/a/app.pdb'' ro_world))
       = [Mkdir ''/ro'' (Some EEXIST), Mkdir ''/ro/a'' (Some EACCES)]
   \<and> files (snd (mkpath ''/ro/a/app.pdb'' ro_world)) ''/ro/a'' = None"
  by code_simp

section \<open>Lookup\<close>

text \<open>
  C3. When the symbol file derived for the first root exists, \<open>GetSymbolFile\<close> returns
  \<open>FOUND\<close> with that path and the world is unchanged: the trace gains no download and
  no shell command, and no later root is tried.
\<close>

theorem hit_at_first_root:
  assumes "paths s = root_path # rest"
    and "symbol_paths m root_path = Some (path, path_pdb)"
    and "file_exists path w"
  shows "GetSymbolFile e s (Some m) w = (Inr (FOUND, path), w)
       \<and> trace (snd (GetSymbolFile e s (Some m) w)) = trace w"
  using assms by (simp add: GetSymbolFile_def GetSymbolFileAtPathFromRoot_def)

theorem hit_at_first_root_witness:
  "GetSymbolFile offline cache_supplier (Some app_exe) hit_world
     = (Inr (FOUND, ''/cache/app.pdb/ABC123/app.sym''), hit_world)
   \<and> trace (snd (GetSymbolFile offline cache_supplier (Some app_exe) hit_world)) = []"
proof -
  have p: "paths cache_supplier = ''/cache'' # [''/mnt/symbols'']"
    by (simp add: cache_supplier_def)
  have d: "symbol_paths app_exe ''/cache''
      = Some (''/cache/app.pdb/ABC123/app.sym'', ''/cache/app.pdb/ABC123/app.pdb'')"
    by (simp add: app_exe_def symbol_paths_def debug_file_name_of_def File_def
        identifier_segment_def symbol_file_stem_def tolower_def)
  have x: "file_exists ''/cache/app.pdb/ABC123/app.sym'' hit_world"
    by (simp add: file_exists_def stat_ok_def c_str_def hit_world_def)
  show ?thesis
    using hit_at_first_root [OF p d x, of offline] by (simp add: hit_world_def)
qed

text \<open>
  C2 does not hold of the code. \<open>load_url\<close> reports a failed download by a null pointer
  and leaves \<open>buf_size\<close> unset, and lines 314 to 319 go on without looking at either:
  the directories are made, \<open>fopen\<close> creates the pdb file, and \<open>fwrite\<close> is called with
  the null pointer and the unset size. In an empty cache and with no network, the pdb file
  of \<open>app_exe\<close> is absent before the call and an empty file afterwards; the result is
  \<open>NOT_FOUND\<close> when the unset size happens to be zero, and an invalid read otherwise.
\<close>

theorem fetch_failure_creates_native_file:
  "curl_easy_perform offline (symbol_url ''/cache'' ''/cache/app.pdb/ABC123/app.pdb'') = None
   \<and> files cache_world ''/cache/app.pdb/ABC123/app.pdb'' = None
   \<and> fst (GetSymbolFileAtPathFromRoot offline (Some app_exe) ''/cache'' cache_world)
       = Inr (NOT_FOUND, [])
   \<and> files (snd (GetSymbolFileAtPathFromRoot offline (Some app_exe) ''/cache'' cache_world))
         ''/cache/app.pdb/ABC123/app.pdb'' = Some (Regular [])
   \<and> fst (GetSymbolFileAtPathFromRoot (offline\<lparr>uninit_int := 7\<rparr>) (Some app_exe) ''/cache''
          cache_world) = Inl InvalidRead
   \<and> files (snd (GetSymbolFileAtPathFromRoot (offline\<lparr>uninit_int := 7\<rparr>) (Some app_exe)
          ''/cache'' cache_world)) ''/cache/app.pdb/ABC123/app.pdb'' = Some (Regular [])"
  by code_simp

section \<open>Buffers\<close>

text \<open>
  A null module is found under no root, so the null test of the model before
  \<open>module->code_file()\<close> is never reached with a null module.
\<close>

lemma GetSymbolFile_roots_null:
  "GetSymbolFile_roots e None roots w = (Inr (NOT_FOUND, []), w)"
  by (induction roots) (simp_all add: GetSymbolFileAtPathFromRoot_def)

lemma GetCStringSymbolData_null:
  "GetCStringSymbolData e s None w = (Inr (NOT_FOUND, [], None), s, w)"
  by (simp add: GetCStringSymbolData_def GetSymbolFileData_def GetSymbolFile_def
      GetSymbolFile_roots_null)

text \<open>
  C4, as the code has it. After a call of \<open>GetCStringSymbolData\<close> that returns \<open>FOUND\<close>
  with a buffer, the map of buffers is the old map with \<open>insert\<close> applied: when the code
  file name had no entry, its entry is the buffer just returned; when it had one, that
  earlier entry stays and the new buffer is in no entry. No other key changes.
\<close>

theorem registry_keeps_earlier_buffer:
  assumes "GetCStringSymbolData e s (Some m) w
             = (Inr (FOUND, symbol_file, Some (Some buffer, n)), s', w')"
  shows "memory_buffers s' =
           (case memory_buffers s (code_file m) of
              None \<Rightarrow> (memory_buffers s)(code_file m \<mapsto> buffer)
            | Some earlier \<Rightarrow> memory_buffers s)
       \<and> (memory_buffers s (code_file m) = None \<longrightarrow>
            memory_buffers s' (code_file m) = Some buffer)
       \<and> (\<forall>earlier. memory_buffers s (code_file m) = Some earlier \<longrightarrow>
            memory_buffers s' (code_file m) = Some earlier)
       \<and> (\<forall>k. k \<noteq> code_file m \<longrightarrow> memory_buffers s' k = memory_buffers s k)
       \<and> paths s' = paths s"
proof -
  from assms have "memory_buffers s' = map_insert (memory_buffers s) (code_file m) buffer"
    and "paths s' = paths s"
    by (auto simp: GetCStringSymbolData_def Let_def
        split: prod.splits sum.splits if_splits option.splits)
  then show ?thesis
    by (auto simp: map_insert_def split: option.splits)
qed

theorem registry_keeps_earlier_buffer_witness:
  "memory_buffers
     (fst (snd (GetCStringSymbolData offline cache_supplier (Some app_exe) hit_world)))
     (code_file app_exe) = Some 0
   \<and> memory_buffers
       (fst (snd (GetCStringSymbolData offline busy_supplier (Some app_exe) busy_world)))
       (code_file app_exe) = Some 0"
proof -
  let ?X = "GetCStringSymbolData offline cache_supplier (Some app_exe) hit_world"
  let ?Y = "GetCStringSymbolData offline busy_supplier (Some app_exe) busy_world"
  have "fst ?X = Inr (FOUND, ''/cache/app.pdb/ABC123/app.sym'', Some (Some 0, 7))"
    by code_simp
  then have x: "?X = (Inr (FOUND, ''/cache/app.pdb/ABC123/app.sym'', Some (Some 0, 7)),
      fst (snd ?X), snd (snd ?X))"
    by (simp add: prod_eq_iff)
  have "fst ?Y = Inr (FOUND, ''/cache/app.pdb/ABC123/app.sym'', Some (Some 1, 7))"
    by code_simp
  then have y: "?Y = (Inr (FOUND, ''/cache/app.pdb/ABC123/app.sym'', Some (Some 1, 7)),
      fst (snd ?Y), snd (snd ?Y))"
    by (simp add: prod_eq_iff)
  have free: "memory_buffers cache_supplier (code_file app_exe) = None"
    by (simp add: cache_supplier_def)
  have taken: "memory_buffers busy_supplier (code_file app_exe) = Some 0"
    by (simp add: busy_supplier_def app_exe_def)
  from registry_keeps_earlier_buffer [OF x] free
  have "memory_buffers (fst (snd ?X)) (code_file app_exe) = Some 0" by blast
  moreover from registry_keeps_earlier_buffer [OF y] taken
  have "memory_buffers (fst (snd ?Y)) (code_file app_exe) = Some 0" by blast
  ultimately show ?thesis by simp
qed

text \<open>
  C4 as stated fails: two calls for the same module, with no release between them, return
  the buffers 0 and 1, and the entry of \<open>app.exe\<close> is still buffer 0 after the second
  call.
\<close>

theorem second_buffer_not_registered_counterexample:
  "(case GetCStringSymbolData offline cache_supplier (Some app_exe) hit_world of
      (r1, s1, w1) \<Rightarrow>
        r1 = Inr (FOUND, ''/cache/app.pdb/ABC123/app.sym'', Some (Some 0, 7))
        \<and> (case GetCStringSymbolData offline s1 (Some app_exe) w1 of
             (r2, s2, w2) \<Rightarrow>
               r2 = Inr (FOUND, ''/cache/app.pdb/ABC123/app.sym'', Some (Some 1, 7))
               \<and> memory_buffers s2 ''app.exe'' = Some 0
               \<and> memory_buffers s2 ''app.exe'' \<noteq> Some 1
               \<and> heap w2 1 = Some (''MODULE'' @ [CHR 0x00])))"
  by code_simp

text \<open>
  The delimiter of \<open>getline\<close> ends the data: of a symbol file with the bytes \<open>A\<close>,
  \<open>0xFF\<close>, \<open>B\<close>, the buffer holds \<open>A\<close> and the NUL, and the size is 2.
\<close>

lemma getline_stops_at_0xFF:
  "fst (GetSymbolFileData offline cache_supplier (Some app_exe) xff_world)
     = Inr (FOUND, ''/cache/app.pdb/ABC123/app.sym'', ''A'')
   \<and> fst (GetCStringSymbolData offline cache_supplier (Some app_exe) xff_world)
     = Inr (FOUND, ''/cache/app.pdb/ABC123/app.sym'', Some (Some 0, 2))"
  by code_simp

text \<open>Allocation, and the two writes that fill the new array.\<close>

lemma new_char_array_ok:
  "n \<le> mem_avail w \<Longrightarrow>
     new_char_array e n w =
       (Inr (Some (next_addr w)),
        w\<lparr>heap := (heap w)(next_addr w \<mapsto> replicate n (uninit_char e)),
          next_addr := Suc (next_addr w), mem_avail := mem_avail w - n\<rparr>)"
  by (simp add: new_char_array_def)

lemma new_char_array_throws:
  "\<not> n \<le> mem_avail w \<Longrightarrow> new_char_array e n w = (Inl BadAlloc, w)"
  by (simp add: new_char_array_def)

lemma drop_filler: "drop n (c # replicate n c) = [c]"
  by (induction n) simp_all

lemma copy_and_terminate:
  "heap w a = Some (replicate (length bytes + 1) c) \<Longrightarrow>
     heap (store_char a (length bytes) z (memcpy a bytes w)) a = Some (bytes @ [z])"
  by (simp add: memcpy_def store_char_def list_update_append drop_filler)

text \<open>
  When the array cannot be allocated, \<open>new\<close> throws and the call does not return: the
  branch of lines 215 to 219 is never taken. With room for six bytes and a symbol file of
  six, the call for \<open>app_exe\<close> ends in \<open>std::bad_alloc\<close>.
\<close>

lemma allocation_failure_throws:
  assumes "GetSymbolFileData e s (Some m) w = (Inr (FOUND, symbol_file, data), w1)"
    and "\<not> length data + 1 \<le> mem_avail w1"
  shows "GetCStringSymbolData e s (Some m) w = (Inl BadAlloc, s, w1)"
  using assms new_char_array_throws [OF assms(2)]
  by (simp add: GetCStringSymbolData_def Let_def)

lemma allocation_failure_example:
  "fst (GetCStringSymbolData offline cache_supplier (Some app_exe) full_world) = Inl BadAlloc"
  by code_simp

text \<open>
  No root gives \<open>INTERRUPT\<close>, and \<open>new\<close> gives no null pointer, so no call of
  \<open>GetCStringSymbolData\<close> returns \<open>INTERRUPT\<close>.
\<close>

lemma GetSymbolFileAtPathFromRoot_result:
  "GetSymbolFileAtPathFromRoot e module root_path w = (Inr (r, f), w') \<Longrightarrow> r \<noteq> INTERRUPT"
  by (auto simp: GetSymbolFileAtPathFromRoot_def
      split: option.splits prod.splits if_splits)

lemma GetSymbolFile_roots_result:
  "GetSymbolFile_roots e module roots w = (Inr (r, f), w') \<Longrightarrow> r \<noteq> INTERRUPT"
proof (induction roots arbitrary: w)
  case Nil
  then show ?case by simp
next
  case (Cons root_path rest)
  obtain x w1 where a: "GetSymbolFileAtPathFromRoot e module root_path w = (x, w1)"
    by (cases "GetSymbolFileAtPathFromRoot e module root_path w")
  show ?case
  proof (cases x)
    case (Inl flt)
    with a Cons.prems show ?thesis by simp
  next
    case (Inr y)
    obtain r1 f1 where y: "y = (r1, f1)" by (cases y)
    show ?thesis
    proof (cases "r1 = NOT_FOUND")
      case True
      with a Inr y Cons.prems have "GetSymbolFile_roots e module rest w1 = (Inr (r, f), w')"
        by simp
      from Cons.IH [OF this] show ?thesis .
    next
      case False
      with a Inr y Cons.prems have "r = r1"
        by (cases r1) auto
      with a Inr y GetSymbolFileAtPathFromRoot_result show ?thesis by blast
    qed
  qed
qed

lemma never_INTERRUPT:
  "fst (GetCStringSymbolData e s module w) \<noteq> Inr (INTERRUPT, f, out)"
proof
  assume i: "fst (GetCStringSymbolData e s module w) = Inr (INTERRUPT, f, out)"
  obtain x w1 where g: "GetSymbolFile_roots e module (paths s) w = (x, w1)"
    by (cases "GetSymbolFile_roots e module (paths s) w")
  show False
  proof (cases x)
    case (Inl flt)
    with g i show False
      by (simp add: GetCStringSymbolData_def GetSymbolFileData_def GetSymbolFile_def)
  next
    case (Inr y)
    obtain r1 f1 where y: "y = (r1, f1)" by (cases y)
    from g Inr y GetSymbolFile_roots_result have "r1 \<noteq> INTERRUPT" by blast
    with g Inr y i show False
      by (cases module)
        (auto simp: GetCStringSymbolData_def GetSymbolFileData_def GetSymbolFile_def
          new_char_array_def Let_def split: if_splits)
  qed
qed

text \<open>
  C6, as the code has it. Let the lookup find the symbol file and read \<open>data\<close> from it;
  \<open>data\<close> is the content of the file when that holds no byte \<open>0xFF\<close>. When the array
  can be allocated, \<open>GetCStringSymbolData\<close> returns \<open>FOUND\<close>, a buffer that holds
  \<open>data\<close> followed by one NUL, and the size \<open>length data + 1\<close>; the buffer becomes the
  entry of the code file name when that name had no entry, and an entry that the name
  already had is kept.
\<close>

theorem owned_buffer_copy:
  assumes "GetSymbolFileData e s (Some m) w = (Inr (FOUND, symbol_file, data), w1)"
  shows "(length data + 1 \<le> mem_avail w1 \<longrightarrow>
           (\<exists>s' w'. GetCStringSymbolData e s (Some m) w
                       = (Inr (FOUND, symbol_file, Some (Some (next_addr w1), length data + 1)),
                          s', w')
              \<and> heap w' (next_addr w1) = Some (data @ [CHR 0x00])
              \<and> files w' = files w1
              \<and> (memory_buffers s (code_file m) = None \<longrightarrow>
                    memory_buffers s' (code_file m) = Some (next_addr w1))
              \<and> (\<forall>earlier. memory_buffers s (code_file m) = Some earlier \<longrightarrow>
                    memory_buffers s' (code_file m) = Some earlier)))
       \<and> (\<forall>bytes. files w1 (c_str symbol_file) = Some (Regular bytes)
                   \<and> CHR 0xFF \<notin> set bytes \<longrightarrow> data = bytes)"
proof (intro conjI impI allI)
  assume ok: "length data + 1 \<le> mem_avail w1"
  let ?a = "next_addr w1"
  let ?w2 = "w1\<lparr>heap := (heap w1)(?a \<mapsto> replicate (length data + 1) (uninit_char e)),
               next_addr := Suc ?a, mem_avail := mem_avail w1 - (length data + 1)\<rparr>"
  let ?w' = "store_char ?a (length data) (CHR 0x00) (memcpy ?a data ?w2)"
  let ?s' = "s\<lparr>memory_buffers := map_insert (memory_buffers s) (code_file m) ?a\<rparr>"
  have n: "new_char_array e (length data + 1) w1 = (Inr (Some ?a), ?w2)"
    using new_char_array_ok [OF ok] .
  have r: "GetCStringSymbolData e s (Some m) w
      = (Inr (FOUND, symbol_file, Some (Some ?a, length data + 1)), ?s', ?w')"
    using assms n by (simp add: GetCStringSymbolData_def Let_def)
  have h: "heap ?w' ?a = Some (data @ [CHR 0x00])"
    by (rule copy_and_terminate [where c = "uninit_char e"]) simp
  have f: "files ?w' = files w1"
    by (simp add: memcpy_def store_char_def)
  have i: "memory_buffers s (code_file m) = None \<longrightarrow> memory_buffers ?s' (code_file m) = Some ?a"
    by (simp add: map_insert_def)
  have k: "\<forall>earlier. memory_buffers s (code_file m) = Some earlier \<longrightarrow>
      memory_buffers ?s' (code_file m) = Some earlier"
    by (simp add: map_insert_def)
  show "\<exists>s' w'. GetCStringSymbolData e s (Some m) w
                       = (Inr (FOUND, symbol_file, Some (Some (next_addr w1), length data + 1)),
                          s', w')
              \<and> heap w' (next_addr w1) = Some (data @ [CHR 0x00])
              \<and> files w' = files w1
              \<and> (memory_buffers s (code_file m) = None \<longrightarrow>
                    memory_buffers s' (code_file m) = Some (next_addr w1))
              \<and> (\<forall>earlier. memory_buffers s (code_file m) = Some earlier \<longrightarrow>
                    memory_buffers s' (code_file m) = Some earlier)"
    by (intro exI [of _ ?s'] exI [of _ ?w'] conjI r h f i k)
next
  fix bytes
  assume b: "files w1 (c_str symbol_file) = Some (Regular bytes) \<and> CHR 0xFF \<notin> set bytes"
  from assms have "data = getline_eof (c_str symbol_file) w1"
    by (auto simp: GetSymbolFileData_def split: prod.splits sum.splits)
  also have "\<dots> = takeWhile (\<lambda>c. c \<noteq> CHR 0xFF) bytes" using b by (simp add: getline_eof_def)
  also have "\<dots> = bytes" using b by auto
  finally show "data = bytes" .
qed

theorem owned_buffer_copy_witness:
  "fst (GetCStringSymbolData offline cache_supplier (Some app_exe) hit_world)
       = Inr (FOUND, ''/cache/app.pdb/ABC123/app.sym'', Some (Some 0, 7))
   \<and> heap (snd (snd (GetCStringSymbolData offline cache_supplier (Some app_exe) hit_world))) 0
       = Some (''MODULE'' @ [CHR 0x00])
   \<and> memory_buffers
         (fst (snd (GetCStringSymbolData offline cache_supplier (Some app_exe) hit_world)))
         (code_file app_exe) = Some 0
   \<and> fst (GetCStringSymbolData offline busy_supplier (Some app_exe) busy_world)
       = Inr (FOUND, ''/cache/app.pdb/ABC123/app.sym'', Some (Some 1, 7))
   \<and> memory_buffers
         (fst (snd (GetCStringSymbolData offline busy_supplier (Some app_exe) busy_world)))
         (code_file app_exe) = Some 0"
proof -
  have d1: "GetSymbolFileData offline cache_supplier (Some app_exe) hit_world
      = (Inr (FOUND, ''/cache/app.pdb/ABC123/app.sym'', ''MODULE''), hit_world)"
    by (simp add: GetSymbolFileData_def GetSymbolFile_def GetSymbolFileAtPathFromRoot_def
        cache_supplier_def app_exe_def symbol_paths_def debug_file_name_of_def File_def
        identifier_segment_def symbol_file_stem_def tolower_def file_exists_def stat_ok_def
        c_str_def hit_world_def getline_eof_def)
  have d2: "GetSymbolFileData offline busy_supplier (Some app_exe) busy_world
      = (Inr (FOUND, ''/cache/app.pdb/ABC123/app.sym'', ''MODULE''), busy_world)"
    by (simp add: GetSymbolFileData_def GetSymbolFile_def GetSymbolFileAtPathFromRoot_def
        busy_supplier_def app_exe_def symbol_paths_def debug_file_name_of_def File_def
        identifier_segment_def symbol_file_stem_def tolower_def file_exists_def stat_ok_def
        c_str_def busy_world_def getline_eof_def)
  have room: "length ''MODULE'' + 1 \<le> mem_avail hit_world"
    and zero: "next_addr hit_world = 0"
    and free: "memory_buffers cache_supplier (code_file app_exe) = None"
    by (simp_all add: hit_world_def cache_supplier_def)
  have room2: "length ''MODULE'' + 1 \<le> mem_avail busy_world"
    and one: "next_addr busy_world = 1"
    and taken: "memory_buffers busy_supplier (code_file app_exe) = Some 0"
    by (simp_all add: busy_world_def busy_supplier_def app_exe_def)
  from owned_buffer_copy [OF d1] room zero free
  obtain s' w' where
    "GetCStringSymbolData offline cache_supplier (Some app_exe) hit_world
       = (Inr (FOUND, ''/cache/app.pdb/ABC123/app.sym'', Some (Some 0, 7)), s', w')"
    "heap w' 0 = Some (''MODULE'' @ [CHR 0x00])"
    "memory_buffers s' (code_file app_exe) = Some 0"
    by auto
  moreover from owned_buffer_copy [OF d2] room2 one taken
  obtain t' v' where
    "GetCStringSymbolData offline busy_supplier (Some app_exe) busy_world
       = (Inr (FOUND, ''/cache/app.pdb/ABC123/app.sym'', Some (Some 1, 7)), t', v')"
    "memory_buffers t' (code_file app_exe) = Some 0"
    by auto
  ultimately show ?thesis by simp
qed

text \<open>
  C6 as stated fails where it says that the buffer is registered: with an entry for
  \<open>app.exe\<close> in the map, the call returns buffer 1 and the entry is still buffer 0.
\<close>

theorem occupied_key_counterexample:
  "memory_buffers busy_supplier ''app.exe'' = Some 0
   \<and> fst (GetCStringSymbolData offline busy_supplier (Some app_exe) busy_world)
       = Inr (FOUND, ''/cache/app.pdb/ABC123/app.sym'', Some (Some 1, 7))
   \<and> heap (snd (snd (GetCStringSymbolData offline busy_supplier (Some app_exe) busy_world))) 1
       = Some (''MODULE'' @ [CHR 0x00])
   \<and> memory_buffers
         (fst (snd (GetCStringSymbolData offline busy_supplier (Some app_exe) busy_world)))
         ''app.exe'' = Some 0
   \<and> memory_buffers
         (fst (snd (GetCStringSymbolData offline busy_supplier (Some app_exe) busy_world)))
         ''app.exe'' \<noteq> Some 1"
  by code_simp

text \<open>
  C10. \<open>FreeSymbolData\<close> with a null module returns at once: for every supplier and
  every world, the supplier (its map of buffers included) and the world (the heap
  included) are what they were.
\<close>

theorem free_null_module:
  "FreeSymbolData s None w = (s, w)
   \<and> memory_buffers (fst (FreeSymbolData s None w)) = memory_buffers s"
  by (simp add: FreeSymbolData_def)

end
